theory Spec2Isabelle
  imports Complex_Main "HOL-Library.Word" "HOL-Library.Sublist"
begin

unbundle bit_operations_syntax

section \<open>Wrap-around extender (package utils, \<open>WrapAround[T, ET]\<close>)\<close>

text \<open>
  The Go type is generic in the wire type \<open>T\<close> (uint16 or uint32) and the extended type
  \<open>ET\<close> (uint32 or uint64); the record is generic in the two word types. The field
  \<open>initialized\<close> is called \<open>w_initialized\<close> here, since the stats engine has a field of
  the same name. \<open>cycles\<close> is a Go \<open>int\<close>, 64 bits wide; the conversion \<open>ET(w.cycles)\<close>
  keeps the low bits, which is \<open>ucast\<close>.
\<close>

record ('t, 'e) WrapAround =
  fullRange :: "'e"
  w_initialized :: bool
  start :: "'t"
  highest :: "'t"
  cycles :: "64 word"

record 'e wrapAroundUpdateResult =
  IsRestart :: bool
  PreExtendedStart :: "'e"
  PreExtendedHighest :: "'e"
  ExtendedVal :: "'e"

definition NewWrapAround :: "('t::len word, 'e::len word) WrapAround" where
  "NewWrapAround =
     \<lparr>fullRange = push_bit LENGTH('t) 1, w_initialized = False, start = 0, highest = 0,
      cycles = 0\<rparr>"

definition Seed :: "('t, 'e) WrapAround \<Rightarrow> ('t, 'e) WrapAround \<Rightarrow> ('t, 'e) WrapAround" where
  "Seed w from =
     w\<lparr>w_initialized := w_initialized from, start := start from, highest := highest from,
       cycles := cycles from\<rparr>"

definition GetStart :: "('t::len word, 'e::len word) WrapAround \<Rightarrow> 't word" where
  "GetStart w = start w"

definition GetExtendedStart :: "('t::len word, 'e::len word) WrapAround \<Rightarrow> 'e word" where
  "GetExtendedStart w = ucast (start w)"

definition GetHighest :: "('t::len word, 'e::len word) WrapAround \<Rightarrow> 't word" where
  "GetHighest w = highest w"

definition GetExtendedHighest :: "('t::len word, 'e::len word) WrapAround \<Rightarrow> 'e word" where
  "GetExtendedHighest w = ucast (cycles w) * fullRange w + ucast (highest w)"

text \<open>The closure \<open>isWrapBack\<close> of \<open>maybeAdjustStart\<close>; it reads \<open>w.highest\<close> and \<open>val\<close>.\<close>

definition isWrapBack :: "('t::len word, 'e::len word) WrapAround \<Rightarrow> 't word \<Rightarrow> bool" where
  "isWrapBack w val \<longleftrightarrow>
     (ucast (highest w) :: 'e word) < drop_bit 1 (fullRange w) \<and>
     (ucast val :: 'e word) \<ge> drop_bit 1 (fullRange w)"

text \<open>
  \<open>maybeAdjustStart\<close> returns \<open>(isRestart, preExtendedStart, extendedVal)\<close> and the updated
  extender. The local \<open>cycles\<close> starts as a copy of \<open>w.cycles\<close>; named results that are not
  assigned keep Go's zero value.
\<close>

definition maybeAdjustStart ::
  "('t::len word, 'e::len word) WrapAround \<Rightarrow> 't word \<Rightarrow>
     (bool \<times> 'e word \<times> 'e word) \<times> ('t word, 'e word) WrapAround" where
  "maybeAdjustStart w val =
     (let cycles0 = cycles w;
          totalNum = GetExtendedHighest w - GetExtendedStart w + 1
      in if totalNum > drop_bit 1 (fullRange w) then
           (let cycles1 = (if isWrapBack w val then cycles0 - 1 else cycles0)
            in ((False, 0, ucast cycles1 * fullRange w + ucast val), w))
         else if val - start w > ucast (drop_bit 1 (fullRange w)) then
           (let preExtendedStart = GetExtendedStart w;
                wrapped = (val > highest w);
                w1 = (if wrapped then w\<lparr>cycles := 1\<rparr> else w);
                cycles1 = (if wrapped then 0 else cycles0);
                w2 = w1\<lparr>start := val\<rparr>
            in ((True, preExtendedStart, ucast cycles1 * fullRange w + ucast val), w2))
         else
           (let cycles1 = (if isWrapBack w val then cycles0 - 1 else cycles0)
            in ((False, 0, ucast cycles1 * fullRange w + ucast val), w)))"

definition WrapAround_Update ::
  "('t::len word, 'e::len word) WrapAround \<Rightarrow> 't word \<Rightarrow>
     'e word wrapAroundUpdateResult \<times> ('t word, 'e word) WrapAround" where
  "WrapAround_Update w val =
     (if \<not> w_initialized w then
        (\<lparr>IsRestart = False, PreExtendedStart = 0, PreExtendedHighest = ucast val - 1,
          ExtendedVal = ucast val\<rparr>,
         w\<lparr>start := val, highest := val, w_initialized := True\<rparr>)
      else
        (let preExtendedHighest = GetExtendedHighest w;
             gap = val - highest w
         in if gap = 0 \<or> gap > ucast (drop_bit 1 (fullRange w)) then
              (case maybeAdjustStart w val of
                 ((isRestart, preExtendedStart, extendedVal), w') \<Rightarrow>
                   (\<lparr>IsRestart = isRestart, PreExtendedStart = preExtendedStart,
                     PreExtendedHighest = preExtendedHighest, ExtendedVal = extendedVal\<rparr>, w'))
            else
              (let w1 = (if val < highest w then w\<lparr>cycles := cycles w + 1\<rparr> else w);
                   w2 = w1\<lparr>highest := val\<rparr>
               in (\<lparr>IsRestart = False, PreExtendedStart = 0,
                    PreExtendedHighest = preExtendedHighest,
                    ExtendedVal = ucast (cycles w2) * fullRange w2 + ucast val\<rparr>, w2))))"

text \<open>Feeding a list of values to \<open>Update\<close>, collecting the results in order.\<close>

fun WrapAround_Updates ::
  "('t::len word, 'e::len word) WrapAround \<Rightarrow> 't word list \<Rightarrow>
     'e word wrapAroundUpdateResult list \<times> ('t word, 'e word) WrapAround" where
  "WrapAround_Updates w [] = ([], w)"
| "WrapAround_Updates w (v # vs) =
     (case WrapAround_Update w v of
        (res, w') \<Rightarrow> (case WrapAround_Updates w' vs of (rs, w'') \<Rightarrow> (res # rs, w'')))"

text \<open>
  The stats engine calls \<open>ResetHighest\<close> and \<open>RollbackRestart\<close> with extended values.
  \<open>ResetHighest\<close> is the source's (\<open>w.highest = val\<close>); its callers convert the extended
  argument to \<open>T\<close>.
\<close>

definition ResetHighest :: "('t, 'e) WrapAround \<Rightarrow> 't \<Rightarrow> ('t, 'e) WrapAround" where
  "ResetHighest w val = w\<lparr>highest := val\<rparr>"

text \<open>
  Modelled from the spec: \<open>RollbackRestart\<close> is called by the stats engine and is not in the
  extender's source; the spec says ``\<open>RollbackRestart(prev)\<close> restores \<open>start\<close> to \<open>prev\<close>''.
\<close>

definition RollbackRestart ::
  "('t::len word, 'e::len word) WrapAround \<Rightarrow> 'e word \<Rightarrow> ('t word, 'e word) WrapAround" where
  "RollbackRestart w ev = w\<lparr>start := ucast ev\<rparr>"

section \<open>Time\<close>

text \<open>
  A \<open>time.Time\<close> is an instant, here the number of nanoseconds since Go's zero \<open>Time\<close>
  (January 1 of year 1, UTC), so that \<open>IsZero\<close> is equality with 0. \<open>time.Now()\<close> is an
  argument of every operation that reads the clock. \<open>Sub\<close> saturates at the range of a
  \<open>Duration\<close> (an int64 of nanoseconds), as the standard library documents.
\<close>

type_synonym Time = int

definition IsZero :: "Time \<Rightarrow> bool" where
  "IsZero t \<longleftrightarrow> t = 0"

definition time_Sub :: "Time \<Rightarrow> Time \<Rightarrow> int" where
  "time_Sub t u = max (- (2 ^ 63)) (min (2 ^ 63 - 1) (t - u))"

definition unixToInternal :: int where
  "unixToInternal = 62135596800 * 1000000000"

definition UnixNano :: "Time \<Rightarrow> int" where
  "UnixNano t = t - unixToInternal"

definition UnixMilli :: "Time \<Rightarrow> int" where
  "UnixMilli t = (t - unixToInternal) div 1000000"

text \<open>Go's int64 arithmetic wraps, and its integer division truncates towards zero.\<close>

definition int64 :: "int \<Rightarrow> int" where
  "int64 x = signed_take_bit 63 x"

definition go_div :: "int \<Rightarrow> int \<Rightarrow> int" where
  "go_div a b = sgn a * sgn b * (\<bar>a\<bar> div \<bar>b\<bar>)"

section \<open>RTP stats engine (package buffer, \<open>RTPStats\<close>)\<close>

definition GapHistogramNumBins :: int where
  "GapHistogramNumBins = 101"

definition SnInfoSize :: int where
  "SnInfoSize = 8192"

definition SnInfoMask :: int where
  "SnInfoMask = SnInfoSize - 1"

definition FirstSnapshotId :: "32 word" where
  "FirstSnapshotId = 1"

definition firstPacketTimeAdjustWindow :: int where
  "firstPacketTimeAdjustWindow = 2 * 60 * 1000000000"

definition firstPacketTimeAdjustThreshold :: int where
  "firstPacketTimeAdjustThreshold = 5 * 1000000000"

record RTPFlowState =
  IsNotHandled :: bool
  HasLoss :: bool
  LossStartInclusive :: "64 word"
  LossEndExclusive :: "64 word"
  IsDuplicate :: bool
  IsOutOfOrder :: bool
  ExtSequenceNumber :: "64 word"
  ExtTimestamp :: "64 word"

text \<open>Go's zero value of the flow state, which a named result holds until assigned.\<close>

definition flowState0 :: RTPFlowState where
  "flowState0 =
     \<lparr>IsNotHandled = False, HasLoss = False, LossStartInclusive = 0, LossEndExclusive = 0,
      IsDuplicate = False, IsOutOfOrder = False, ExtSequenceNumber = 0, ExtTimestamp = 0\<rparr>"

text \<open>
  Floating point: \<open>float64\<close> fields (the jitter values) are idealised as \<open>real\<close>, without
  IEEE rounding. No statement below depends on their values.

  Field names of \<open>Snapshot\<close> and \<open>RTCPSenderReportData\<close> that the engine also uses carry the
  prefix \<open>ss_\<close>; the fields are the source's, in the source's order.
\<close>

record Snapshot =
  ss_startTime :: Time
  extStartSN :: "64 word"
  extStartSNOverridden :: "64 word"
  ss_packetsDuplicate :: "64 word"
  ss_bytesDuplicate :: "64 word"
  ss_headerBytesDuplicate :: "64 word"
  ss_packetsLostOverridden :: "64 word"
  ss_nacks :: "32 word"
  ss_plis :: "32 word"
  ss_firs :: "32 word"
  ss_maxRtt :: "32 word"
  ss_maxJitter :: real
  ss_maxJitterOverridden :: real

definition Snapshot0 :: Snapshot where
  "Snapshot0 =
     \<lparr>ss_startTime = 0, extStartSN = 0, extStartSNOverridden = 0, ss_packetsDuplicate = 0,
      ss_bytesDuplicate = 0, ss_headerBytesDuplicate = 0, ss_packetsLostOverridden = 0,
      ss_nacks = 0, ss_plis = 0, ss_firs = 0, ss_maxRtt = 0, ss_maxJitter = 0,
      ss_maxJitterOverridden = 0\<rparr>"

record SnInfo =
  hdrSize :: "16 word"
  pktSize :: "16 word"
  isPaddingOnly :: bool
  marker :: bool
  isOutOfOrder :: bool

definition SnInfo0 :: SnInfo where
  "SnInfo0 = \<lparr>hdrSize = 0, pktSize = 0, isPaddingOnly = False, marker = False,
     isOutOfOrder = False\<rparr>"

record RTCPSenderReportData =
  RTPTimestamp :: "32 word"
  RTPTimestampExt :: "64 word"
  NTPTimestamp :: "64 word"
  PacketCount :: "32 word"
  PacketCountExt :: "64 word"
  PaddingOnlyDrops :: "64 word"
  At :: Time

record RTPStatsParams =
  ClockRate :: "32 word"
  IsReceiverReportDriven :: bool

text \<open>The fields of \<open>rtcp.ReceptionReport\<close> (pion/rtcp), which the engine stores.\<close>

record ReceptionReport =
  rr_SSRC :: "32 word"
  rr_FractionLost :: "8 word"
  rr_TotalLost :: "32 word"
  rr_LastSequenceNumber :: "32 word"
  rr_Jitter :: "32 word"
  rr_LastSenderReport :: "32 word"
  rr_Delay :: "32 word"

text \<open>
  What \<open>Update\<close> reads of an \<open>rtp.Header\<close> (pion/rtp): three fields and the result of
  \<open>MarshalSize()\<close>, a Go \<open>int\<close>.
\<close>

record Header =
  SequenceNumber :: "16 word"
  Timestamp :: "32 word"
  Marker :: bool
  MarshalSize :: int

text \<open>
  The engine. The logger and the lock are left out; the arrays \<open>snInfos\<close> (8192 entries)
  and \<open>gapHistogram\<close> (101 entries) are lists, \<open>snInfoWritePtr\<close> is a Go \<open>int\<close>, the map
  \<open>snapshots\<close> is a partial function, the pointers \<open>srFirst\<close> and \<open>srNewest\<close> are options
  (the records they point to are replaced, never written in place).
\<close>

record RTPStats =
  params :: RTPStatsParams
  initialized :: bool
  resyncOnNextPacket :: bool
  shouldDiscountPaddingOnlyDrops :: bool
  startTime :: Time
  endTime :: Time
  sequenceNumber :: "(16 word, 64 word) WrapAround"
  extHighestSNOverridden :: "64 word"
  lastRRTime :: Time
  lastRR :: ReceptionReport
  timestamp :: "(32 word, 64 word) WrapAround"
  firstTime :: Time
  highestTime :: Time
  lastTransit :: "32 word"
  lastJitterRTP :: "32 word"
  bytes :: "64 word"
  headerBytes :: "64 word"
  bytesDuplicate :: "64 word"
  headerBytesDuplicate :: "64 word"
  bytesPadding :: "64 word"
  headerBytesPadding :: "64 word"
  packetsDuplicate :: "64 word"
  packetsPadding :: "64 word"
  packetsOutOfOrder :: "64 word"
  packetsLost :: "64 word"
  packetsLostOverridden :: "64 word"
  frames :: "32 word"
  jitter :: real
  maxJitter :: real
  jitterOverridden :: real
  maxJitterOverridden :: real
  snInfos :: "SnInfo list"
  snInfoWritePtr :: int
  gapHistogram :: "32 word list"
  nacks :: "32 word"
  nackAcks :: "32 word"
  nackMisses :: "32 word"
  nackRepeated :: "32 word"
  plis :: "32 word"
  lastPli :: Time
  layerLockPlis :: "32 word"
  lastLayerLockPli :: Time
  firs :: "32 word"
  lastFir :: Time
  keyFrames :: "32 word"
  lastKeyFrame :: Time
  rtt :: "32 word"
  maxRtt :: "32 word"
  srFirst :: "RTCPSenderReportData option"
  srNewest :: "RTCPSenderReportData option"
  nextSnapshotId :: "32 word"
  snapshots :: "32 word \<Rightarrow> Snapshot option"

definition NewRTPStats :: "RTPStatsParams \<Rightarrow> RTPStats" where
  "NewRTPStats ps =
     \<lparr>params = ps, initialized = False, resyncOnNextPacket = False,
      shouldDiscountPaddingOnlyDrops = False, startTime = 0, endTime = 0,
      sequenceNumber = NewWrapAround, extHighestSNOverridden = 0, lastRRTime = 0,
      lastRR = \<lparr>rr_SSRC = 0, rr_FractionLost = 0, rr_TotalLost = 0, rr_LastSequenceNumber = 0,
        rr_Jitter = 0, rr_LastSenderReport = 0, rr_Delay = 0\<rparr>,
      timestamp = NewWrapAround, firstTime = 0, highestTime = 0, lastTransit = 0,
      lastJitterRTP = 0, bytes = 0, headerBytes = 0, bytesDuplicate = 0,
      headerBytesDuplicate = 0, bytesPadding = 0, headerBytesPadding = 0, packetsDuplicate = 0,
      packetsPadding = 0, packetsOutOfOrder = 0, packetsLost = 0, packetsLostOverridden = 0,
      frames = 0, jitter = 0, maxJitter = 0, jitterOverridden = 0, maxJitterOverridden = 0,
      snInfos = replicate (nat SnInfoSize) SnInfo0, snInfoWritePtr = 0,
      gapHistogram = replicate (nat GapHistogramNumBins) 0,
      nacks = 0, nackAcks = 0, nackMisses = 0, nackRepeated = 0, plis = 0, lastPli = 0,
      layerLockPlis = 0, lastLayerLockPli = 0, firs = 0, lastFir = 0, keyFrames = 0,
      lastKeyFrame = 0, rtt = 0, maxRtt = 0, srFirst = None, srNewest = None,
      nextSnapshotId = FirstSnapshotId, snapshots = Map.empty\<rparr>"

definition Stop :: "RTPStats \<Rightarrow> Time \<Rightarrow> RTPStats" where
  "Stop r now = r\<lparr>endTime := now\<rparr>"

definition IsActive :: "RTPStats \<Rightarrow> bool" where
  "IsActive r \<longleftrightarrow> initialized r \<and> IsZero (endTime r)"

subsection \<open>The ring of per-sequence-number records\<close>

definition getSnInfoOutOfOrderPtr :: "RTPStats \<Rightarrow> 64 word \<Rightarrow> 64 word \<Rightarrow> int" where
  "getSnInfoOutOfOrderPtr r esn ehsn =
     (if sint (esn - ehsn) > 0 then - 1
      else
        (let offset = ehsn - esn
         in if sint offset \<ge> SnInfoSize then - 1
            else (snInfoWritePtr r - sint offset - 1) AND SnInfoMask))"

definition setSnInfo ::
  "RTPStats \<Rightarrow> 64 word \<Rightarrow> 64 word \<Rightarrow> 16 word \<Rightarrow> 16 word \<Rightarrow> 16 word \<Rightarrow> bool \<Rightarrow> bool \<Rightarrow> RTPStats" where
  "setSnInfo r esn ehsn pktSz hdrSz payloadSz mrk isOoo =
     (let ooo = (sint (esn - ehsn) < 0);
          writePtr = (if \<not> ooo then snInfoWritePtr r else getSnInfoOutOfOrderPtr r esn ehsn);
          r1 = (if \<not> ooo then r\<lparr>snInfoWritePtr := (writePtr + 1) AND SnInfoMask\<rparr> else r)
      in if ooo \<and> writePtr < 0 then r1
         else r1\<lparr>snInfos := (snInfos r1)[nat writePtr :=
                (snInfos r1 ! nat writePtr)\<lparr>pktSize := pktSz, hdrSize := hdrSz,
                   isPaddingOnly := (payloadSz = 0), marker := mrk, isOutOfOrder := isOoo\<rparr>]\<rparr>)"

text \<open>One iteration of the loop of \<open>clearSnInfos\<close>; \<open>isOutOfOrder\<close> is not reset.\<close>

definition clearSnInfo_step :: "RTPStats \<Rightarrow> RTPStats" where
  "clearSnInfo_step r =
     r\<lparr>snInfos := (snInfos r)[nat (snInfoWritePtr r) :=
          (snInfos r ! nat (snInfoWritePtr r))\<lparr>pktSize := 0, hdrSize := 0,
             isPaddingOnly := False, marker := False\<rparr>],
       snInfoWritePtr := (snInfoWritePtr r + 1) AND SnInfoMask\<rparr>"

primrec clearSnInfos_loop :: "nat \<Rightarrow> RTPStats \<Rightarrow> RTPStats" where
  "clearSnInfos_loop 0 r = r"
| "clearSnInfos_loop (Suc n) r = clearSnInfos_loop n (clearSnInfo_step r)"

text \<open>
  \<open>for esn := extStartInclusive; esn != extEndExclusive; esn++\<close> on uint64 runs
  \<open>extEndExclusive - extStartInclusive\<close> (modulo \<open>2^64\<close>) times.
\<close>

definition clearSnInfos :: "RTPStats \<Rightarrow> 64 word \<Rightarrow> 64 word \<Rightarrow> RTPStats" where
  "clearSnInfos r extStartInclusive extEndExclusive =
     clearSnInfos_loop (unat (extEndExclusive - extStartInclusive)) r"

definition isSnInfoLost :: "RTPStats \<Rightarrow> 64 word \<Rightarrow> 64 word \<Rightarrow> bool" where
  "isSnInfoLost r esn ehsn =
     (let readPtr = getSnInfoOutOfOrderPtr r esn ehsn
      in if readPtr < 0 then False else pktSize (snInfos r ! nat readPtr) = 0)"

subsection \<open>Jitter and the gap histogram\<close>

definition updateJitter :: "RTPStats \<Rightarrow> Header \<Rightarrow> Time \<Rightarrow> RTPStats" where
  "updateJitter r rtph packetTime =
     (if lastJitterRTP r = Timestamp rtph then r
      else
        (let timeSinceFirst = time_Sub packetTime (firstTime r);
             packetTimeRTP = (word_of_int
                (go_div (int64 (timeSinceFirst * uint (ClockRate (params r)))) 1000000000) :: 32 word);
             transit = packetTimeRTP - Timestamp rtph;
             r1 = (if lastTransit r \<noteq> 0 then
                     (let d0 = transit - lastTransit r;
                          d = (if sint d0 < 0 then - d0 else d0);
                          j = jitter r + (real_of_int (sint d) - jitter r) / 16;
                          r' = r\<lparr>jitter := j\<rparr>;
                          r'' = (if j > maxJitter r' then r'\<lparr>maxJitter := j\<rparr> else r')
                      in r''\<lparr>snapshots := (\<lambda>k. map_option
                              (\<lambda>s. if j > ss_maxJitter s then s\<lparr>ss_maxJitter := j\<rparr> else s)
                              (snapshots r'' k))\<rparr>)
                   else r)
         in r1\<lparr>lastTransit := transit, lastJitterRTP := Timestamp rtph\<rparr>))"

definition updateGapHistogram :: "RTPStats \<Rightarrow> int \<Rightarrow> RTPStats" where
  "updateGapHistogram r gap =
     (if gap < 2 then r
      else
        (let missing = gap - 1
         in if missing > GapHistogramNumBins then
              r\<lparr>gapHistogram := (gapHistogram r)[nat (GapHistogramNumBins - 1) :=
                   gapHistogram r ! nat (GapHistogramNumBins - 1) + 1]\<rparr>
            else
              r\<lparr>gapHistogram := (gapHistogram r)[nat (missing - 1) :=
                   gapHistogram r ! nat (missing - 1) + 1]\<rparr>))"

subsection \<open>\<open>RTPStats.Update\<close>\<close>

text \<open>
  The resync block at the head of \<open>Update\<close>: the cycles that the newest sender report
  implies for the sequence number and for the timestamp.
\<close>

definition resync_snCycles :: "RTPStats \<Rightarrow> RTCPSenderReportData \<Rightarrow> 16 word \<Rightarrow> 64 word" where
  "resync_snCycles r sr sn =
     (let newestPacketCount = PacketCountExt sr;
          paddingOnlyDrops = PaddingOnlyDrops sr
      in if newestPacketCount \<noteq> 0 then
           (let e0 = GetExtendedStart (sequenceNumber r) + newestPacketCount;
                extExpectedHighestSN =
                  (if shouldDiscountPaddingOnlyDrops r then e0 - paddingOnlyDrops else e0);
                expectedHighestSN = (ucast (extExpectedHighestSN AND 0xFFFF) :: 16 word);
                c0 = extExpectedHighestSN AND 0xFFFFFFFFFFFF0000;
                c1 = (if sn - expectedHighestSN < 2 ^ 15 \<and> sn < expectedHighestSN
                      then c0 + 2 ^ 16 else c0);
                c2 = (if c1 \<noteq> 0 \<and> expectedHighestSN - sn < 2 ^ 15 \<and> expectedHighestSN < sn
                      then c1 - 2 ^ 16 else c1)
            in c2)
         else 0)"

definition resync_tsCycles :: "RTCPSenderReportData \<Rightarrow> 32 word \<Rightarrow> 64 word" where
  "resync_tsCycles sr ts =
     (let extExpectedHighestTS = RTPTimestampExt sr;
          expectedHighestTS = (ucast (extExpectedHighestTS AND 0xFFFFFFFF) :: 32 word);
          c0 = extExpectedHighestTS AND 0xFFFFFFFF00000000;
          c1 = (if ts - expectedHighestTS < 2 ^ 31 \<and> ts < expectedHighestTS
                then c0 + 2 ^ 32 else c0);
          c2 = (if c1 \<noteq> 0 \<and> expectedHighestTS - ts < 2 ^ 31 \<and> expectedHighestTS < ts
                then c1 - 2 ^ 32 else c1)
      in c2)"

definition Update_resync :: "RTPStats \<Rightarrow> Header \<Rightarrow> Time \<Rightarrow> RTPStats" where
  "Update_resync r rtph packetTime =
     (if resyncOnNextPacket r then
        (let r0 = r\<lparr>resyncOnNextPacket := False\<rparr>
         in if initialized r0 then
              (let snCycles = (case srNewest r0 of None \<Rightarrow> 0
                                | Some sr \<Rightarrow> resync_snCycles r0 sr (SequenceNumber rtph));
                   tsCycles = (case srNewest r0 of None \<Rightarrow> 0
                                | Some sr \<Rightarrow> resync_tsCycles sr (Timestamp rtph))
               in r0\<lparr>sequenceNumber := ResetHighest (sequenceNumber r0)
                         (ucast (snCycles + ucast (SequenceNumber rtph) - 1)),
                      timestamp := ResetHighest (timestamp r0)
                         (ucast (tsCycles + ucast (Timestamp rtph))),
                      highestTime := packetTime\<rparr>)
            else r0)
      else r)"

text \<open>The closing block of \<open>Update\<close>, run for every packet that is not a duplicate.\<close>

definition Update_account ::
  "RTPStats \<Rightarrow> RTPFlowState \<Rightarrow> Header \<Rightarrow> int \<Rightarrow> 64 word \<Rightarrow> 64 word \<Rightarrow> Time \<Rightarrow> RTPStats" where
  "Update_account r flowState rtph payloadSize pktSz hdrSz packetTime =
     (if \<not> IsDuplicate flowState then
        (if payloadSize = 0 then
           r\<lparr>packetsPadding := packetsPadding r + 1, bytesPadding := bytesPadding r + pktSz,
             headerBytesPadding := headerBytesPadding r + hdrSz\<rparr>
         else
           (let r1 = r\<lparr>bytes := bytes r + pktSz, headerBytes := headerBytes r + hdrSz\<rparr>;
                r2 = (if Marker rtph then r1\<lparr>frames := frames r1 + 1\<rparr> else r1)
            in updateJitter r2 rtph packetTime))
      else r)"

text \<open>
  The branch \<open>gapSN <= 0\<close> (duplicate or out-of-order). A padding-only packet that made the
  sequence-number extender restart rolls the restart back and returns at once, with the
  zero flow state.
\<close>

definition Update_outOfOrder ::
  "RTPStats \<Rightarrow> 64 word wrapAroundUpdateResult \<Rightarrow> 64 word wrapAroundUpdateResult \<Rightarrow> Header \<Rightarrow>
     int \<Rightarrow> 64 word \<Rightarrow> 64 word \<Rightarrow> int \<Rightarrow> Time \<Rightarrow> RTPFlowState \<times> RTPStats" where
  "Update_outOfOrder r resSN resTS rtph payloadSize pktSz hdrSz gapSN packetTime =
     (let r1 = (if payloadSize = 0 \<and> IsRestart resTS
                then r\<lparr>timestamp := RollbackRestart (timestamp r) (PreExtendedStart resTS)\<rparr>
                else r)
      in if payloadSize = 0 \<and> IsRestart resSN then
           (flowState0,
            r1\<lparr>sequenceNumber := RollbackRestart (sequenceNumber r1) (PreExtendedStart resSN)\<rparr>)
         else
           (let r2 = (if gapSN \<noteq> 0 then r1\<lparr>packetsOutOfOrder := packetsOutOfOrder r1 + 1\<rparr>
                      else r1);
                r3 = (if IsRestart resSN then
                        r2\<lparr>packetsLost := packetsLost r2 +
                               (PreExtendedStart resSN - ExtendedVal resSN),
                           snapshots := (\<lambda>k. map_option
                              (\<lambda>s. if extStartSN s = PreExtendedStart resSN
                                    then s\<lparr>extStartSN := GetExtendedStart (sequenceNumber r2)\<rparr>
                                    else s)
                              (snapshots r2 k))\<rparr>
                      else r2);
                dup = (\<not> isSnInfoLost r3 (ExtendedVal resSN) (PreExtendedHighest resSN));
                r4 = (if dup then
                        r3\<lparr>bytesDuplicate := bytesDuplicate r3 + pktSz,
                           headerBytesDuplicate := headerBytesDuplicate r3 + hdrSz,
                           packetsDuplicate := packetsDuplicate r3 + 1\<rparr>
                      else
                        setSnInfo (r3\<lparr>packetsLost := packetsLost r3 - 1\<rparr>)
                          (ExtendedVal resSN) (PreExtendedHighest resSN)
                          (ucast pktSz) (ucast hdrSz) (word_of_int payloadSize) (Marker rtph) True);
                flowState = flowState0\<lparr>IsDuplicate := dup, IsOutOfOrder := True,
                   ExtSequenceNumber := ExtendedVal resSN, ExtTimestamp := ExtendedVal resTS\<rparr>
            in (flowState, Update_account r4 flowState rtph payloadSize pktSz hdrSz packetTime)))"

text \<open>The branch \<open>gapSN > 0\<close> (in order).\<close>

definition Update_inOrder ::
  "RTPStats \<Rightarrow> 64 word wrapAroundUpdateResult \<Rightarrow> 64 word wrapAroundUpdateResult \<Rightarrow> Header \<Rightarrow>
     int \<Rightarrow> 64 word \<Rightarrow> 64 word \<Rightarrow> int \<Rightarrow> Time \<Rightarrow> RTPFlowState \<times> RTPStats" where
  "Update_inOrder r resSN resTS rtph payloadSize pktSz hdrSz gapSN packetTime =
     (let r1 = updateGapHistogram r gapSN;
          r2 = clearSnInfos r1 (PreExtendedHighest resSN + 1) (ExtendedVal resSN);
          r3 = r2\<lparr>packetsLost := packetsLost r2 + word_of_int (gapSN - 1)\<rparr>;
          r4 = setSnInfo r3 (ExtendedVal resSN) (PreExtendedHighest resSN)
                 (ucast pktSz) (ucast hdrSz) (word_of_int payloadSize) (Marker rtph) False;
          r5 = (if Timestamp rtph \<noteq> ucast (PreExtendedHighest resTS)
                then r4\<lparr>highestTime := packetTime\<rparr> else r4);
          fs1 = (if gapSN > 1
                 then flowState0\<lparr>HasLoss := True,
                        LossStartInclusive := PreExtendedHighest resSN + 1,
                        LossEndExclusive := ExtendedVal resSN\<rparr>
                 else flowState0);
          flowState = fs1\<lparr>ExtSequenceNumber := ExtendedVal resSN,
                          ExtTimestamp := ExtendedVal resTS\<rparr>
      in (flowState, Update_account r5 flowState rtph payloadSize pktSz hdrSz packetTime))"

text \<open>
  The value of the local \<open>gapSN\<close> of \<open>Update\<close>, an int64: the extended sequence number of
  the packet minus the extended highest before it, after the resync block has run.
\<close>

definition Update_gapSN :: "RTPStats \<Rightarrow> Header \<Rightarrow> Time \<Rightarrow> int" where
  "Update_gapSN r rtph packetTime =
     (let resSN = fst (WrapAround_Update (sequenceNumber (Update_resync r rtph packetTime))
                    (SequenceNumber rtph))
      in sint (ExtendedVal resSN - PreExtendedHighest resSN))"

text \<open>
  \<open>Update(rtph, payloadSize, paddingSize, packetTime)\<close>; \<open>now\<close> is what \<open>time.Now()\<close>
  returns. The loop that initialises the snapshots \<open>FirstSnapshotId .. nextSnapshotId - 1\<close>
  on the first packet writes the same record at each of these ids.
\<close>

definition Update ::
  "RTPStats \<Rightarrow> Header \<Rightarrow> int \<Rightarrow> int \<Rightarrow> Time \<Rightarrow> Time \<Rightarrow> RTPFlowState \<times> RTPStats" where
  "Update r rtph payloadSize paddingSize packetTime now =
     (if \<not> IsZero (endTime r) then (flowState0\<lparr>IsNotHandled := True\<rparr>, r)
      else
        (let r1 = Update_resync r rtph packetTime
         in if \<not> initialized r1 \<and> payloadSize = 0 then (flowState0\<lparr>IsNotHandled := True\<rparr>, r1)
            else
              (let (resSN, sn') = WrapAround_Update (sequenceNumber r1) (SequenceNumber rtph);
                   (resTS, ts') = WrapAround_Update (timestamp r1) (Timestamp rtph);
                   r2 = (if \<not> initialized r1 then
                           r1\<lparr>initialized := True, startTime := now, firstTime := packetTime,
                              highestTime := packetTime, sequenceNumber := sn', timestamp := ts',
                              snapshots := (\<lambda>i. if FirstSnapshotId \<le> i \<and> i < nextSnapshotId r1
                                 then Some (Snapshot0\<lparr>ss_startTime := now,
                                        extStartSN := GetExtendedStart sn',
                                        extStartSNOverridden := GetExtendedStart sn'\<rparr>)
                                 else snapshots r1 i)\<rparr>
                         else r1\<lparr>sequenceNumber := sn', timestamp := ts'\<rparr>);
                   hdrSz = (word_of_int (MarshalSize rtph) :: 64 word);
                   pktSz = hdrSz + word_of_int (payloadSize + paddingSize);
                   gapSN = sint (ExtendedVal resSN - PreExtendedHighest resSN)
               in if gapSN \<le> 0
                  then Update_outOfOrder r2 resSN resTS rtph payloadSize pktSz hdrSz gapSN packetTime
                  else Update_inOrder r2 resSN resTS rtph payloadSize pktSz hdrSz gapSN packetTime)))"

definition ResyncOnNextPacket :: "RTPStats \<Rightarrow> bool \<Rightarrow> RTPStats" where
  "ResyncOnNextPacket r discount =
     r\<lparr>resyncOnNextPacket := True, shouldDiscountPaddingOnlyDrops := discount\<rparr>"

subsection \<open>The other mutators\<close>

definition UpdateNack :: "RTPStats \<Rightarrow> 32 word \<Rightarrow> RTPStats" where
  "UpdateNack r nackCount =
     (if \<not> IsZero (endTime r) then r else r\<lparr>nacks := nacks r + nackCount\<rparr>)"

definition UpdateNackProcessed :: "RTPStats \<Rightarrow> 32 word \<Rightarrow> 32 word \<Rightarrow> 32 word \<Rightarrow> RTPStats" where
  "UpdateNackProcessed r nackAckCount nackMissCount nackRepeatedCount =
     (if \<not> IsZero (endTime r) then r
      else r\<lparr>nackAcks := nackAcks r + nackAckCount, nackMisses := nackMisses r + nackMissCount,
             nackRepeated := nackRepeated r + nackRepeatedCount\<rparr>)"

definition updatePliLocked :: "RTPStats \<Rightarrow> 32 word \<Rightarrow> RTPStats" where
  "updatePliLocked r pliCount = r\<lparr>plis := plis r + pliCount\<rparr>"

definition updatePliTimeLocked :: "RTPStats \<Rightarrow> Time \<Rightarrow> RTPStats" where
  "updatePliTimeLocked r now = r\<lparr>lastPli := now\<rparr>"

definition UpdatePliAndTime :: "RTPStats \<Rightarrow> 32 word \<Rightarrow> Time \<Rightarrow> RTPStats" where
  "UpdatePliAndTime r pliCount now =
     (if \<not> IsZero (endTime r) then r
      else updatePliTimeLocked (updatePliLocked r pliCount) now)"

definition UpdatePli :: "RTPStats \<Rightarrow> 32 word \<Rightarrow> RTPStats" where
  "UpdatePli r pliCount = (if \<not> IsZero (endTime r) then r else updatePliLocked r pliCount)"

definition UpdatePliTime :: "RTPStats \<Rightarrow> Time \<Rightarrow> RTPStats" where
  "UpdatePliTime r now = (if \<not> IsZero (endTime r) then r else updatePliTimeLocked r now)"

definition UpdateLayerLockPliAndTime :: "RTPStats \<Rightarrow> 32 word \<Rightarrow> Time \<Rightarrow> RTPStats" where
  "UpdateLayerLockPliAndTime r pliCount now =
     (if \<not> IsZero (endTime r) then r
      else r\<lparr>layerLockPlis := layerLockPlis r + pliCount, lastLayerLockPli := now\<rparr>)"

definition UpdateFir :: "RTPStats \<Rightarrow> 32 word \<Rightarrow> RTPStats" where
  "UpdateFir r firCount = (if \<not> IsZero (endTime r) then r else r\<lparr>firs := firs r + firCount\<rparr>)"

definition UpdateFirTime :: "RTPStats \<Rightarrow> Time \<Rightarrow> RTPStats" where
  "UpdateFirTime r now = (if \<not> IsZero (endTime r) then r else r\<lparr>lastFir := now\<rparr>)"

definition UpdateKeyFrame :: "RTPStats \<Rightarrow> 32 word \<Rightarrow> Time \<Rightarrow> RTPStats" where
  "UpdateKeyFrame r kfCount now =
     (if \<not> IsZero (endTime r) then r
      else r\<lparr>keyFrames := keyFrames r + kfCount, lastKeyFrame := now\<rparr>)"

definition UpdateRtt :: "RTPStats \<Rightarrow> 32 word \<Rightarrow> RTPStats" where
  "UpdateRtt r rtt' =
     (if \<not> IsZero (endTime r) then r
      else
        (let r1 = r\<lparr>rtt := rtt'\<rparr>;
             r2 = (if rtt' > maxRtt r1 then r1\<lparr>maxRtt := rtt'\<rparr> else r1)
         in r2\<lparr>snapshots := (\<lambda>k. map_option
                 (\<lambda>s. if rtt' > ss_maxRtt s then s\<lparr>ss_maxRtt := rtt'\<rparr> else s)
                 (snapshots r2 k))\<rparr>))"

text \<open>
  \<open>maybeAdjustFirstPacketTime\<close>: \<open>time.Since(r.startTime)\<close> is \<open>now.Sub(r.startTime)\<close>. The
  source computes \<open>samplesDuration\<close> in float64 and converts it to a \<open>Duration\<close>; here it is
  the real quotient, truncated towards zero.
\<close>

definition maybeAdjustFirstPacketTime :: "RTPStats \<Rightarrow> 64 word \<Rightarrow> Time \<Rightarrow> RTPStats" where
  "maybeAdjustFirstPacketTime r ets now =
     (if time_Sub now (startTime r) > firstPacketTimeAdjustWindow then r
      else
        (let samplesDiff = sint (ets - GetExtendedStart (timestamp r))
         in if samplesDiff < 0 then r
            else
              (let x = real_of_int samplesDiff / real_of_int (uint (ClockRate (params r)))
                        * 1000000000;
                   samplesDuration = (if x < 0 then \<lceil>x\<rceil> else \<lfloor>x\<rfloor>);
                   firstTime' = now - samplesDuration
               in if firstTime' < firstTime r then
                    (if time_Sub (firstTime r) firstTime' > firstPacketTimeAdjustThreshold then r
                     else r\<lparr>firstTime := firstTime'\<rparr>)
                  else r)))"

definition MaybeAdjustFirstPacketTime ::
  "RTPStats \<Rightarrow> RTCPSenderReportData option \<Rightarrow> Time \<Rightarrow> RTPStats" where
  "MaybeAdjustFirstPacketTime r srData now =
     (case srData of None \<Rightarrow> r
      | Some sr \<Rightarrow> maybeAdjustFirstPacketTime r (RTPTimestampExt sr) now)"

definition SetRtcpSenderReportData ::
  "RTPStats \<Rightarrow> RTCPSenderReportData option \<Rightarrow> Time \<Rightarrow> RTPStats" where
  "SetRtcpSenderReportData r srData now =
     (case srData of None \<Rightarrow> r
      | Some sr \<Rightarrow>
          if \<not> initialized r then r
          else if (case srNewest r of None \<Rightarrow> False
                   | Some newest \<Rightarrow> NTPTimestamp newest > NTPTimestamp sr) then r
          else
            (let tsCycles = (case srNewest r of None \<Rightarrow> 0
                   | Some newest \<Rightarrow>
                       (let c = RTPTimestampExt newest AND 0xFFFFFFFF00000000
                        in if RTPTimestamp sr - RTPTimestamp newest < 2 ^ 31 \<and>
                              RTPTimestamp sr < RTPTimestamp newest
                           then c + 2 ^ 32 else c));
                 pcCycles = (case srNewest r of None \<Rightarrow> 0
                   | Some newest \<Rightarrow>
                       (let c = PacketCountExt newest AND 0xFFFFFFFF00000000
                        in if PacketCount sr - PacketCount newest < 2 ^ 31 \<and>
                              PacketCount sr < PacketCount newest
                           then c + 2 ^ 32 else c));
                 srDataCopy = sr\<lparr>RTPTimestampExt := ucast (RTPTimestamp sr) + tsCycles,
                                  PacketCountExt := ucast (PacketCount sr) + pcCycles\<rparr>;
                 r1 = maybeAdjustFirstPacketTime r (RTPTimestampExt srDataCopy) now;
                 r2 = (if (case srNewest r1 of None \<Rightarrow> False
                           | Some newest \<Rightarrow> RTPTimestampExt srDataCopy < RTPTimestampExt newest)
                       then r1\<lparr>srFirst := None\<rparr> else r1);
                 r3 = r2\<lparr>srNewest := Some srDataCopy\<rparr>
             in if srFirst r3 = None then r3\<lparr>srFirst := Some srDataCopy\<rparr> else r3))"

definition NewSnapshotId :: "RTPStats \<Rightarrow> Time \<Rightarrow> 32 word \<times> RTPStats" where
  "NewSnapshotId r now =
     (let id = nextSnapshotId r;
          r1 = (if initialized r then
                  r\<lparr>snapshots := (snapshots r)(id \<mapsto>
                       Snapshot0\<lparr>ss_startTime := now,
                         extStartSN := GetExtendedStart (sequenceNumber r),
                         extStartSNOverridden := GetExtendedStart (sequenceNumber r)\<rparr>)\<rparr>
                else r)
      in (id, r1\<lparr>nextSnapshotId := nextSnapshotId r1 + 1\<rparr>))"

section \<open>The extender on the literal scenarios\<close>

lemma fullRange_u16_u64:
  "fullRange (NewWrapAround :: (16 word, 64 word) WrapAround) = 65536"
  by (simp add: NewWrapAround_def)

text \<open>
  C1 (scenario S1, wrap): a fresh u16 extender fed 65530, 65533, 0, 3 returns the extended
  values 65530, 65533, 65536, 65539 in that order, no call reports a restart, and the
  extended highest value afterwards is 65539.
\<close>

theorem C1_wrap_scenario:
  "(case WrapAround_Updates (NewWrapAround :: (16 word, 64 word) WrapAround) [65530, 65533, 0, 3] of
      (rs, w) \<Rightarrow>
        map ExtendedVal rs = [65530, 65533, 65536, 65539] \<and>
        map IsRestart rs = [False, False, False, False] \<and>
        GetExtendedHighest w = 65539)"
  by (simp add: NewWrapAround_def WrapAround_Update_def GetExtendedHighest_def Let_def)

text \<open>
  C2 (scenario S2, early out-of-order with restart): a fresh u16 extender fed 10 then 9
  returns extendedVal 10 for the first call; the second call returns isRestart = true,
  preExtendedStart = 10 and extendedVal = 9.
\<close>

theorem C2_restart_scenario:
  "(case WrapAround_Updates (NewWrapAround :: (16 word, 64 word) WrapAround) [10, 9] of
      (rs, w) \<Rightarrow>
        map ExtendedVal rs = [10, 9] \<and>
        IsRestart (rs ! 1) \<and> PreExtendedStart (rs ! 1) = 10 \<and> ExtendedVal (rs ! 1) = 9)"
  by (simp add: NewWrapAround_def WrapAround_Update_def maybeAdjustStart_def
      GetExtendedHighest_def GetExtendedStart_def isWrapBack_def Let_def)

end
